theory Spec2Isabelle
  imports Main
begin

section \<open>JavaScript values\<close>

text \<open>
  The methods of \<^verbatim>\<open>Package\<close> (src/Package.ts) test their arguments at run time
  (\<^verbatim>\<open>typeof\<close>, \<^verbatim>\<open>Array.isArray\<close>, truthiness), so the arguments are modelled as
  untyped JavaScript values. A function is opaque: it has its declared \<^verbatim>\<open>name\<close> and an
  identity. A plain object is the list of its own properties (the first binding of a key
  is the one that is read). Numbers are restricted to the integers; the code only reads
  their \<^verbatim>\<open>typeof\<close> and their truthiness.
\<close>

datatype jsval =
    Undefined
  | Null
  | Bool bool
  | Num int
  | Str (str_val: string)
  | Arr "jsval list"
  | Obj "(string \<times> jsval) list"
  | Fun (fun_name: string) (fun_id: nat)

text \<open>
  Every \<^verbatim>\<open>throw new Error(msg)\<close> of the source is \<open>Error msg\<close>; reading a property of
  \<^verbatim>\<open>null\<close> or \<^verbatim>\<open>undefined\<close> raises the runtime's \<open>TypeError\<close>.
\<close>

datatype error = Error string | TypeError

fun typeof :: "jsval \<Rightarrow> string" where
  "typeof Undefined = ''undefined''"
| "typeof Null = ''object''"
| "typeof (Bool b) = ''boolean''"
| "typeof (Num n) = ''number''"
| "typeof (Str s) = ''string''"
| "typeof (Arr xs) = ''object''"
| "typeof (Obj ps) = ''object''"
| "typeof (Fun f i) = ''function''"

text \<open>Truthiness, as tested by \<^verbatim>\<open>!v\<close>, \<^verbatim>\<open>!!v\<close>, \<^verbatim>\<open>a && b\<close> and \<^verbatim>\<open>a || b\<close>.\<close>

fun truthy :: "jsval \<Rightarrow> bool" where
  "truthy Undefined = False"
| "truthy Null = False"
| "truthy (Bool b) = b"
| "truthy (Num n) = (n \<noteq> 0)"
| "truthy (Str s) = (s \<noteq> [])"
| "truthy (Arr xs) = True"
| "truthy (Obj ps) = True"
| "truthy (Fun f i) = True"

text \<open>
  The property read \<^verbatim>\<open>v.k\<close>. The source reads \<^verbatim>\<open>name\<close>, \<^verbatim>\<open>dependencies\<close> and
  \<^verbatim>\<open>module\<close> only: a function carries its \<^verbatim>\<open>name\<close>; primitives and arrays carry none
  of the three, so the read gives \<^verbatim>\<open>undefined\<close>.
\<close>

fun getprop :: "jsval \<Rightarrow> string \<Rightarrow> error + jsval" where
  "getprop Undefined k = Inl TypeError"
| "getprop Null k = Inl TypeError"
| "getprop (Obj ps) k = Inr (case map_of ps k of Some v \<Rightarrow> v | None \<Rightarrow> Undefined)"
| "getprop (Fun f i) k = Inr (if k = ''name'' then Str f else Undefined)"
| "getprop v k = Inr Undefined"

text \<open>\<^verbatim>\<open>Array.isArray\<close> and the two helpers at the end of the source file.\<close>

fun isArray :: "jsval \<Rightarrow> bool" where
  "isArray (Arr xs) = True"
| "isArray v = False"

definition isObject :: "jsval \<Rightarrow> bool" where
  "isObject v = (let type = typeof v in truthy v \<and> (type = ''object'' \<or> type = ''function''))"

definition isString :: "jsval \<Rightarrow> bool" where
  "isString v = (typeof v = ''string'')"

text \<open>
  A value used as a property key that is not a string is converted by the runtime
  (\<^verbatim>\<open>ToString\<close>, which may run a \<^verbatim>\<open>toString\<close> method supplied by the caller). The
  conversion of non-strings is the parameter \<open>toKey\<close> of the registration operations; a
  string is its own key.
\<close>

fun property_key :: "(jsval \<Rightarrow> string) \<Rightarrow> jsval \<Rightarrow> string" where
  "property_key toKey (Str s) = s"
| "property_key toKey v = toKey v"

text \<open>
  The number-to-string conversion of \<^verbatim>\<open>'_' + handlers.length\<close>: the decimal digits of
  an array length.
\<close>

definition digit :: "nat \<Rightarrow> char" where
  "digit d = char_of (48 + d)"

fun decimal :: "nat \<Rightarrow> string" where
  "decimal n = (if n < 10 then [digit n] else decimal (n div 10) @ [digit (n mod 10)])"

declare decimal.simps [simp del]

section \<open>The package descriptor\<close>

text \<open>
  The fields of class \<^verbatim>\<open>Package\<close>. \<open>module\<close> and \<open>handlers\<close> are plain objects
  created as \<^verbatim>\<open>{}\<close> and used as dictionaries, so they inherit from
  \<^verbatim>\<open>Object.prototype\<close>. The maps \<open>handlers\<close> and \<open>module\<close> are their own properties: a
  handler list per event (the declared type \<^verbatim>\<open>string[]\<close>) and a module entry per name;
  an entry \<^verbatim>\<open>['factory', f]\<close> is the pair of its tag and its value. Two more
  components hold what the methods can do to these objects besides:
  \<^item> \<open>handlers_builtin\<close>: the names of members of \<^verbatim>\<open>Object.prototype\<close> that
    \<^verbatim>\<open>eventHandler\<close> has stored as own properties of \<^verbatim>\<open>handlers\<close> (see there);
  \<^item> \<open>module_prototype\<close>: the entry that has replaced the prototype of \<^verbatim>\<open>module\<close>
    through an assignment to \<^verbatim>\<open>module['__proto__']\<close>, or \<open>None\<close> while the prototype is
    \<^verbatim>\<open>Object.prototype\<close>.
  The field \<^verbatim>\<open>namedDependencies\<close> is declared but never written in this file and is
  left out.
\<close>

record package =
  name :: string
  dependencies :: jsval
  processors :: "jsval list"
  configFns :: "jsval list"
  handlers :: "string \<rightharpoonup> string list"
  module :: "string \<rightharpoonup> string \<times> jsval"
  handlers_builtin :: "string set"
  module_prototype :: "(string \<times> jsval) option"

text \<open>
  The function-valued members of \<^verbatim>\<open>Object.prototype\<close> with their \<^verbatim>\<open>length\<close>, as the
  language standard gives them; the remaining member, \<^verbatim>\<open>__proto__\<close>, is an accessor for
  the prototype of the object.
\<close>

definition Object_prototype_functions :: "(string \<times> nat) list" where
  "Object_prototype_functions =
     [(''constructor'', 1), (''hasOwnProperty'', 1), (''isPrototypeOf'', 1),
      (''propertyIsEnumerable'', 1), (''toLocaleString'', 0), (''toString'', 0),
      (''valueOf'', 0), (''__defineGetter__'', 2), (''__defineSetter__'', 2),
      (''__lookupGetter__'', 1), (''__lookupSetter__'', 1)]"

text \<open>
  What a read of \<^verbatim>\<open>this.handlers[eventName]\<close> can give: a handler list, a function
  inherited from \<^verbatim>\<open>Object.prototype\<close> (of the given \<^verbatim>\<open>length\<close>), or, for the key
  \<^verbatim>\<open>__proto__\<close>, the object \<^verbatim>\<open>Object.prototype\<close> itself. All three are truthy; only
  the first has a \<^verbatim>\<open>push\<close> method.
\<close>

datatype handlers_value =
    HandlerArray "string list"
  | BuiltinFunction nat
  | PrototypeObject

definition inherited :: "string \<Rightarrow> handlers_value option" where
  "inherited k =
     (if k = ''__proto__'' then Some PrototypeObject
      else map_option BuiltinFunction (map_of Object_prototype_functions k))"

text \<open>
  The read \<^verbatim>\<open>this.handlers[k]\<close>: an own property first, else the inherited member,
  else \<^verbatim>\<open>undefined\<close> (\<open>None\<close>). An own property recorded in \<open>handlers_builtin\<close> holds
  the member that is inherited under the same name, so the read is the same with it.
\<close>

definition handlers_get :: "package \<Rightarrow> string \<Rightarrow> handlers_value option" where
  "handlers_get this k =
     (case handlers this k of Some l \<Rightarrow> Some (HandlerArray l) | None \<Rightarrow> inherited k)"

text \<open>
  The conversion of \<^verbatim>\<open>handlers.length\<close> in \<^verbatim>\<open>'_' + handlers.length\<close>: the length of the
  array, the \<^verbatim>\<open>length\<close> of the function, and \<^verbatim>\<open>undefined\<close> for
  \<^verbatim>\<open>Object.prototype\<close>, which has no such property.
\<close>

fun length_string :: "handlers_value \<Rightarrow> string" where
  "length_string (HandlerArray l) = decimal (length l)"
| "length_string (BuiltinFunction n) = decimal n"
| "length_string PrototypeObject = ''undefined''"

text \<open>
  The assignment \<^verbatim>\<open>this.module[k] = entry\<close>. An own property is written, except for
  the key \<^verbatim>\<open>__proto__\<close> when the object has no own property of that name: then the
  assignment reaches the setter inherited from \<^verbatim>\<open>Object.prototype\<close>, which makes the
  entry (an array) the prototype of \<^verbatim>\<open>module\<close> and creates no property. The setter
  stays reachable through the new prototype.
\<close>

definition module_set :: "string \<Rightarrow> string \<times> jsval \<Rightarrow> package \<Rightarrow> package" where
  "module_set k entry this =
     (if k = ''__proto__'' \<and> module this k = None then this\<lparr>module_prototype := Some entry\<rparr>
      else this\<lparr>module := (module this)(k \<mapsto> entry)\<rparr>)"

text \<open>
  The constructor. The default \<^verbatim>\<open>dependencies = []\<close> applies when the argument is
  \<^verbatim>\<open>undefined\<close> (omitted). A failed construction yields no object.
\<close>

definition new_Package :: "jsval \<Rightarrow> jsval \<Rightarrow> error + package" where
  "new_Package name_arg dependencies_arg =
     (let deps = (if dependencies_arg = Undefined then Arr [] else dependencies_arg) in
      if typeof name_arg \<noteq> ''string'' then
        Inl (Error ''You must provide a name for the package'')
      else if truthy deps \<and> \<not> isArray deps then
        Inl (Error ''dependencies must be an array'')
      else
        Inr \<lparr> name = str_val name_arg, dependencies = deps, processors = [],
              configFns = [], handlers = Map.empty, module = Map.empty,
              handlers_builtin = {}, module_prototype = None \<rparr>)"

text \<open>
  \<^verbatim>\<open>static isPackage(pkg: any)\<close>: \<^verbatim>\<open>&&\<close> evaluates left to right, and the first
  property read raises when \<^verbatim>\<open>pkg\<close> is \<^verbatim>\<open>null\<close> or \<^verbatim>\<open>undefined\<close>.
\<close>

definition isPackage :: "jsval \<Rightarrow> error + bool" where
  "isPackage pkg =
     (case getprop pkg ''name'' of
        Inl e \<Rightarrow> Inl e
      | Inr n \<Rightarrow>
          if \<not> isString n then Inr False
          else (case getprop pkg ''dependencies'' of
                  Inl e \<Rightarrow> Inl e
                | Inr d \<Rightarrow>
                    if \<not> isArray d then Inr False
                    else (case getprop pkg ''module'' of
                            Inl e \<Rightarrow> Inl e
                          | Inr m \<Rightarrow> Inr (isObject m))))"

section \<open>The registration operations\<close>

text \<open>
  A method mutates \<^verbatim>\<open>this\<close> and returns it, or throws. The model takes the descriptor
  and gives \<open>Inr\<close> of the descriptor after the call, or \<open>Inl\<close> of the error thrown
  together with the descriptor as the throw leaves it.
\<close>

type_synonym result = "error \<times> package + package"

text \<open>
  \<^verbatim>\<open>processor(processorDefOrName, processorDef?)\<close>. The first \<^verbatim>\<open>if\<close> resolves the
  name and the definition; an omitted second argument is \<^verbatim>\<open>undefined\<close>.
\<close>

definition processor :: "(jsval \<Rightarrow> string) \<Rightarrow> jsval \<Rightarrow> jsval \<Rightarrow> package \<Rightarrow> result" where
  "processor toKey processorDefOrName processorDef_arg this =
     (case (if isString processorDefOrName then
              Inr (processorDefOrName, processorDef_arg)
            else
              (case getprop processorDefOrName ''name'' of
                 Inl e \<Rightarrow> Inl e
               | Inr n \<Rightarrow>
                   if \<not> truthy n then
                     Inl (Error ''processorDef must be an object or a function with a name'')
                   else Inr (n, processorDefOrName))) of
        Inl e \<Rightarrow> Inl (e, this)
      | Inr (name_v, processorDef) \<Rightarrow>
          let this1 =
                (if typeof processorDef = ''function'' then
                   module_set (property_key toKey name_v) (''factory'', processorDef) this
                 else
                   module_set (property_key toKey name_v) (''value'', processorDef) this)
          in Inr (this1\<lparr>processors := processors this1 @ [name_v]\<rparr>))"

text \<open>\<^verbatim>\<open>factory(serviceFactoryOrName, serviceFactory?)\<close>.\<close>

definition factory :: "(jsval \<Rightarrow> string) \<Rightarrow> jsval \<Rightarrow> jsval \<Rightarrow> package \<Rightarrow> result" where
  "factory toKey serviceFactoryOrName serviceFactory_arg this =
     (case (if typeof serviceFactoryOrName = ''string'' then
              Inr (serviceFactoryOrName, serviceFactory_arg)
            else
              (case getprop serviceFactoryOrName ''name'' of
                 Inl e \<Rightarrow> Inl e
               | Inr n \<Rightarrow>
                   if \<not> truthy n then Inl (Error ''serviceFactory must have a name'')
                   else Inr (n, serviceFactoryOrName))) of
        Inl e \<Rightarrow> Inl (e, this)
      | Inr (name_v, serviceFactory) \<Rightarrow>
          if typeof serviceFactory \<noteq> ''function'' then
            Inl (Error (''serviceFactory must be a function.'' @ [CHR 0x0A] @ ''Got '' @
                        [CHR 0x22] @ typeof serviceFactory @ [CHR 0x22]), this)
          else
            Inr (module_set (property_key toKey name_v) (''factory'', serviceFactory) this))"

text \<open>\<^verbatim>\<open>type(ServiceTypeOrName, ServiceType?)\<close>.\<close>

definition type_service :: "(jsval \<Rightarrow> string) \<Rightarrow> jsval \<Rightarrow> jsval \<Rightarrow> package \<Rightarrow> result" where
  "type_service toKey ServiceTypeOrName ServiceType_arg this =
     (case (if typeof ServiceTypeOrName = ''string'' then
              Inr (ServiceTypeOrName, ServiceType_arg)
            else
              (case getprop ServiceTypeOrName ''name'' of
                 Inl e \<Rightarrow> Inl e
               | Inr n \<Rightarrow>
                   if \<not> truthy n then Inl (Error ''ServiceType must have a name'')
                   else Inr (n, ServiceTypeOrName))) of
        Inl e \<Rightarrow> Inl (e, this)
      | Inr (name_v, ServiceType) \<Rightarrow>
          if typeof ServiceType \<noteq> ''function'' then
            Inl (Error ''ServiceType must be a constructor function'', this)
          else
            Inr (module_set (property_key toKey name_v) (''type'', ServiceType) this))"

text \<open>\<^verbatim>\<open>config(configFn)\<close>.\<close>

definition config :: "jsval \<Rightarrow> package \<Rightarrow> result" where
  "config configFn this =
     (if typeof configFn \<noteq> ''function'' then Inl (Error ''configFn must be a function'', this)
      else Inr (this\<lparr>configFns := configFns this @ [configFn]\<rparr>))"

text \<open>
  \<^verbatim>\<open>eventHandler(eventName, handlerFactory)\<close>. After the two checks \<open>eventName\<close> is a
  string and \<open>handlerFactory\<close> a function, whose \<^verbatim>\<open>name\<close> is a string.

  Line 179, \<^verbatim>\<open>const handlers = this.handlers[eventName] = this.handlers[eventName] || []\<close>:
  the value read (\<open>hv\<close>) is truthy whenever it is not \<^verbatim>\<open>undefined\<close>, so the empty array
  stands in for \<^verbatim>\<open>undefined\<close> only. The assignment stores \<open>hv\<close> back: a handler list
  becomes (or stays) the own property of the event; an inherited function becomes an own
  property, recorded in \<open>handlers_builtin\<close>; for \<^verbatim>\<open>__proto__\<close> with no own property the
  setter receives \<^verbatim>\<open>Object.prototype\<close>, the prototype that the object has already.

  Line 182, \<^verbatim>\<open>handlers.push(handlerName)\<close>, extends the stored array; on a function or
  on \<^verbatim>\<open>Object.prototype\<close> there is no \<^verbatim>\<open>push\<close>, and the call raises a TypeError, after
  the writes of lines 179 and 181.
\<close>

definition eventHandler :: "(jsval \<Rightarrow> string) \<Rightarrow> jsval \<Rightarrow> jsval \<Rightarrow> package \<Rightarrow> result" where
  "eventHandler toKey eventName handlerFactory this =
     (if typeof eventName \<noteq> ''string'' then
        Inl (Error ''You must provide a string identifying the type of event to handle'', this)
      else if typeof handlerFactory \<noteq> ''function'' then
        Inl (Error (''handlerFactory must be a function.'' @ [CHR 0x0A] @ ''Got '' @
                    [CHR 0x22] @ typeof handlerFactory @ [CHR 0x22]), this)
      else
        let event = str_val eventName;
            hv = (case handlers_get this event of Some v \<Rightarrow> v | None \<Rightarrow> HandlerArray []);
            this1 =
              (case hv of
                 HandlerArray l \<Rightarrow> this\<lparr>handlers := (handlers this)(event \<mapsto> l)\<rparr>
               | BuiltinFunction n \<Rightarrow>
                   this\<lparr>handlers_builtin := insert event (handlers_builtin this)\<rparr>
               | PrototypeObject \<Rightarrow> this);
            handlerName =
              (if fun_name handlerFactory \<noteq> [] then fun_name handlerFactory
               else name this1 @ ''_'' @ event @ ''_'' @ length_string hv)
        in case factory toKey (Str handlerName) handlerFactory this1 of
             Inl x \<Rightarrow> Inl x
           | Inr this2 \<Rightarrow>
               (case hv of
                  HandlerArray l \<Rightarrow>
                    Inr (this2\<lparr>handlers := (handlers this2)(event \<mapsto> l @ [handlerName])\<rparr>)
                | BuiltinFunction n \<Rightarrow> Inl (TypeError, this2)
                | PrototypeObject \<Rightarrow> Inl (TypeError, this2)))"

section \<open>Sequences of calls\<close>

text \<open>
  A caller chains registration calls on one descriptor. \<open>run\<close> performs one call,
  \<open>run_all\<close> a chain of them, which the first exception ends.
\<close>

datatype call =
    Processor jsval jsval
  | Factory jsval jsval
  | Type jsval jsval
  | Config jsval
  | EventHandler jsval jsval

fun run :: "(jsval \<Rightarrow> string) \<Rightarrow> call \<Rightarrow> package \<Rightarrow> result" where
  "run toKey (Processor a b) this = processor toKey a b this"
| "run toKey (Factory a b) this = factory toKey a b this"
| "run toKey (Type a b) this = type_service toKey a b this"
| "run toKey (Config a) this = config a this"
| "run toKey (EventHandler a b) this = eventHandler toKey a b this"

fun run_all :: "(jsval \<Rightarrow> string) \<Rightarrow> call list \<Rightarrow> package \<Rightarrow> result" where
  "run_all toKey [] this = Inr this"
| "run_all toKey (c # cs) this =
     (case run toKey c this of Inl x \<Rightarrow> Inl x | Inr this1 \<Rightarrow> run_all toKey cs this1)"

section \<open>Auxiliary notions for the properties\<close>



text \<open>
  The handler names registered for an event: the list that is the own property of
  \<^verbatim>\<open>handlers\<close> under the event name, and no names when there is none.
\<close>

definition registered :: "package \<Rightarrow> string \<Rightarrow> string list" where
  "registered this event = (case handlers this event of Some l \<Rightarrow> l | None \<Rightarrow> [])"

text \<open>
  The source documents the \<^verbatim>\<open>name\<close> of a processor definition as a string
  (\<^verbatim>\<open>name : {string}\<close>); it may be absent. \<open>declared_names c\<close> says that a call passes
  no empty string as its explicit name and, for a processor given without an explicit
  name, a definition whose \<^verbatim>\<open>name\<close> is a string or absent.
\<close>

definition string_or_absent_name :: "jsval \<Rightarrow> bool" where
  "string_or_absent_name v =
     (case getprop v ''name'' of Inl e \<Rightarrow> True | Inr n \<Rightarrow> n = Undefined \<or> isString n)"

fun declared_names :: "call \<Rightarrow> bool" where
  "declared_names (Processor a b) = (a \<noteq> Str [] \<and> string_or_absent_name a)"
| "declared_names (Factory a b) = (a \<noteq> Str [])"
| "declared_names (Type a b) = (a \<noteq> Str [])"
| "declared_names (Config a) = True"
| "declared_names (EventHandler a b) = True"




text \<open>
  Concrete data for the examples: a key conversion that gives every non-string value the
  key of a plain object, and the descriptor that \<^verbatim>\<open>new Package('core')\<close> builds.
\<close>

definition objectKey :: "jsval \<Rightarrow> string" where
  "objectKey v = ''[object Object]''"

definition core_package :: package where
  "core_package = \<lparr> name = ''core'', dependencies = Arr [], processors = [],
                     configFns = [], handlers = Map.empty, module = Map.empty,
                     handlers_builtin = {}, module_prototype = None \<rparr>"

section \<open>Basic facts\<close>

lemma typeof_string: "(typeof v = ''string'') = (\<exists>s. v = Str s)"
  by (cases v) auto

lemma typeof_function: "(typeof v = ''function'') = (\<exists>f i. v = Fun f i)"
  by (cases v) auto

lemma isString_iff: "isString v = (\<exists>s. v = Str s)"
  by (simp add: isString_def typeof_string)

lemma isArray_iff: "isArray v = (\<exists>xs. v = Arr xs)"
  by (cases v) auto

lemma isObject_iff:
  "isObject v = ((\<exists>ps. v = Obj ps) \<or> (\<exists>xs. v = Arr xs) \<or> (\<exists>f i. v = Fun f i))"
  by (cases v) (auto simp: isObject_def)

lemma getprop_total: "v \<noteq> Undefined \<Longrightarrow> v \<noteq> Null \<Longrightarrow> \<exists>x. getprop v k = Inr x"
  by (cases v) auto

lemma module_set_plain:
  "k \<noteq> ''__proto__'' \<Longrightarrow> module_set k e p = p\<lparr>module := (module p)(k \<mapsto> e)\<rparr>"
  by (simp add: module_set_def)


lemma module_set_fields [simp]:
  "name (module_set k e p) = name p"
  "dependencies (module_set k e p) = dependencies p"
  "processors (module_set k e p) = processors p"
  "configFns (module_set k e p) = configFns p"
  "handlers (module_set k e p) = handlers p"
  "handlers_builtin (module_set k e p) = handlers_builtin p"
  by (simp_all add: module_set_def)

lemma module_set_commute [simp]:
  "module_set k e (p\<lparr>handlers := h\<rparr>) = (module_set k e p)\<lparr>handlers := h\<rparr>"
  "module_set k e (p\<lparr>handlers_builtin := b\<rparr>) = (module_set k e p)\<lparr>handlers_builtin := b\<rparr>"
  by (auto simp: module_set_def)

lemma module_set_dom: "dom (module (module_set k e p)) \<subseteq> insert k (dom (module p))"
  by (auto simp: module_set_def split: if_splits)

lemma factory_Str:
  "factory K (Str n) v p =
     (if typeof v \<noteq> ''function'' then
        Inl (Error (''serviceFactory must be a function.'' @ [CHR 0x0A] @ ''Got '' @
                    [CHR 0x22] @ typeof v @ [CHR 0x22]), p)
      else Inr (module_set n (''factory'', v) p))"
  by (simp add: factory_def)

lemma type_service_Str:
  "type_service K (Str n) v p =
     (if typeof v \<noteq> ''function'' then
        Inl (Error ''ServiceType must be a constructor function'', p)
      else Inr (module_set n (''type'', v) p))"
  by (simp add: type_service_def)

lemma processor_Str:
  "processor K (Str n) v p =
     Inr ((module_set n (if typeof v = ''function'' then ''factory'' else ''value'', v) p)
            \<lparr>processors := processors p @ [Str n]\<rparr>)"
  by (simp add: processor_def isString_def)

lemma handlers_get_own: "handlers p e = Some l \<Longrightarrow> handlers_get p e = Some (HandlerArray l)"
  by (simp add: handlers_get_def)

lemma handlers_get_none: "handlers p e = None \<Longrightarrow> handlers_get p e = inherited e"
  by (simp add: handlers_get_def)

lemma eventHandler_array:
  assumes "handlers p e = Some l \<or> (handlers p e = None \<and> inherited e = None \<and> l = [])"
  shows "eventHandler K (Str e) (Fun f i) p =
     Inr ((module_set (if f \<noteq> [] then f else name p @ ''_'' @ e @ ''_'' @ decimal (length l))
             (''factory'', Fun f i) p)
            \<lparr>handlers := (handlers p)
               (e \<mapsto> l @ [if f \<noteq> [] then f
                            else name p @ ''_'' @ e @ ''_'' @ decimal (length l)])\<rparr>)"
proof -
  from assms have hv: "(case handlers_get p e of Some v \<Rightarrow> v | None \<Rightarrow> HandlerArray []) = HandlerArray l"
    by (auto simp: handlers_get_def)
  show ?thesis
    unfolding eventHandler_def Let_def by (simp add: hv factory_Str)
qed

lemma eventHandler_builtin:
  assumes "handlers p e = None" and "inherited e = Some (BuiltinFunction n)"
  shows "eventHandler K (Str e) (Fun f i) p =
     Inl (TypeError,
          (module_set (if f \<noteq> [] then f else name p @ ''_'' @ e @ ''_'' @ decimal n)
             (''factory'', Fun f i) p)
            \<lparr>handlers_builtin := insert e (handlers_builtin p)\<rparr>)"
proof -
  from assms have hv: "(case handlers_get p e of Some v \<Rightarrow> v | None \<Rightarrow> HandlerArray []) = BuiltinFunction n"
    by (simp add: handlers_get_def)
  show ?thesis
    unfolding eventHandler_def Let_def by (simp add: hv factory_Str)
qed

lemma eventHandler_proto:
  assumes "handlers p ''__proto__'' = None"
  shows "eventHandler K (Str ''__proto__'') (Fun f i) p =
     Inl (TypeError,
          module_set (if f \<noteq> [] then f else name p @ ''_'' @ ''__proto__'' @ ''_'' @ ''undefined'')
             (''factory'', Fun f i) p)"
proof -
  from assms have hv: "(case handlers_get p ''__proto__'' of Some v \<Rightarrow> v | None \<Rightarrow> HandlerArray []) = PrototypeObject"
    by (simp add: handlers_get_def inherited_def)
  show ?thesis
    unfolding eventHandler_def Let_def by (simp add: hv factory_Str)
qed

lemma inherited_cases:
  "inherited e = None \<or> inherited e = Some PrototypeObject \<or> (\<exists>n. inherited e = Some (BuiltinFunction n))"
  by (auto simp: inherited_def)

lemma inherited_proto: "(inherited e = Some PrototypeObject) = (e = ''__proto__'')"
  by (auto simp: inherited_def)

lemma eventHandler_success:
  assumes "eventHandler K e f p = Inr p'"
  shows "\<exists>ev fn i l. e = Str ev \<and> f = Fun fn i \<and>
           (handlers p ev = Some l \<or> (handlers p ev = None \<and> inherited ev = None \<and> l = []))"
proof -
  from assms obtain ev fn i where e: "e = Str ev" and f: "f = Fun fn i"
    by (auto simp: eventHandler_def typeof_string typeof_function split: if_splits)
  show ?thesis
  proof (cases "handlers p ev")
    case (Some l)
    with e f show ?thesis by blast
  next
    case None
    note own = this
    show ?thesis
    proof (cases "inherited ev")
      case None
      with own e f show ?thesis by blast
    next
      case (Some v)
      show ?thesis
      proof (cases v)
        case (HandlerArray l)
        with Some show ?thesis
          by (auto simp: inherited_def split: if_splits)
      next
        case (BuiltinFunction n)
        with Some own assms e f show ?thesis
          by (simp add: eventHandler_builtin)
      next
        case PrototypeObject
        with Some have "ev = ''__proto__''"
          by (simp add: inherited_proto)
        with own assms e f show ?thesis
          by (simp add: eventHandler_proto)
      qed
    qed
  qed
qed

lemma inherited_empty: "inherited [] = None"
  by (simp add: inherited_def Object_prototype_functions_def)



lemma processor_success:
  assumes "processor K a b p = Inr p'"
  shows "\<exists>nm d. (if isString a then nm = a \<and> d = b
                   else getprop a ''name'' = Inr nm \<and> truthy nm \<and> d = a) \<and>
                p' = (module_set (property_key K nm)
                        (if typeof d = ''function'' then ''factory'' else ''value'', d) p)
                       \<lparr>processors := processors p @ [nm]\<rparr>"
proof (cases "isString a")
  case True
  with assms have "p' = (module_set (property_key K a)
                        (if typeof b = ''function'' then ''factory'' else ''value'', b) p)
                       \<lparr>processors := processors p @ [a]\<rparr>"
    by (auto simp: processor_def)
  with True show ?thesis by auto
next
  case False
  with assms obtain nm where nm: "getprop a ''name'' = Inr nm" "truthy nm"
    by (auto simp: processor_def split: if_splits sum.splits)
  with False assms have "p' = (module_set (property_key K nm)
                        (if typeof a = ''function'' then ''factory'' else ''value'', a) p)
                       \<lparr>processors := processors p @ [nm]\<rparr>"
    by (auto simp: processor_def)
  with False nm show ?thesis by auto
qed

subsection \<open>Decimal numerals\<close>














lemma synthesized_not_empty: "nm @ ''_'' @ e @ ''_'' @ s \<noteq> []"
  by simp


section \<open>Construction and the package-identity check\<close>

text \<open>
  C8, as amended. Constructing a package from a string name and an array of
  dependencies (or no dependencies argument) succeeds; module map, processors list,
  configFns list and handlers map are empty and name and dependencies are the given
  values. A name that is not a string fails with the error about the missing name. A
  dependencies argument that is truthy and not an array fails with the error about the
  array (the name being a string); a dependencies argument that is falsy and not
  \<^verbatim>\<open>undefined\<close> (\<^verbatim>\<open>null\<close>, \<^verbatim>\<open>false\<close>, \<^verbatim>\<open>0\<close>, the empty string) passes the guard
  \<^verbatim>\<open>dependencies && ...\<close> and is stored as it is.
\<close>

theorem new_Package_cases:
  "new_Package (Str s) (Arr ds) =
     Inr \<lparr> name = s, dependencies = Arr ds, processors = [], configFns = [],
           handlers = Map.empty, module = Map.empty,
           handlers_builtin = {}, module_prototype = None \<rparr>
   \<and> new_Package (Str s) Undefined =
     Inr \<lparr> name = s, dependencies = Arr [], processors = [], configFns = [],
           handlers = Map.empty, module = Map.empty,
           handlers_builtin = {}, module_prototype = None \<rparr>
   \<and> (typeof n \<noteq> ''string'' \<longrightarrow>
        new_Package n d = Inl (Error ''You must provide a name for the package''))
   \<and> (truthy d \<and> \<not> isArray d \<longrightarrow>
        new_Package (Str s) d = Inl (Error ''dependencies must be an array''))
   \<and> (\<not> truthy d \<and> d \<noteq> Undefined \<longrightarrow>
        new_Package (Str s) d =
          Inr \<lparr> name = s, dependencies = d, processors = [], configFns = [],
                handlers = Map.empty, module = Map.empty,
                handlers_builtin = {}, module_prototype = None \<rparr>)"
  by (auto simp: new_Package_def)

theorem new_Package_cases_witness:
  "new_Package (Str ''core'') (Arr [Str ''base'', Str ''jsdoc'']) =
     Inr \<lparr> name = ''core'', dependencies = Arr [Str ''base'', Str ''jsdoc''], processors = [],
           configFns = [], handlers = Map.empty, module = Map.empty,
           handlers_builtin = {}, module_prototype = None \<rparr>
   \<and> new_Package (Num 123) (Arr []) = Inl (Error ''You must provide a name for the package'')
   \<and> new_Package (Str ''core'') (Str ''base'') = Inl (Error ''dependencies must be an array'')
   \<and> new_Package (Str ''core'') (Bool False) =
     Inr \<lparr> name = ''core'', dependencies = Bool False, processors = [],
           configFns = [], handlers = Map.empty, module = Map.empty,
           handlers_builtin = {}, module_prototype = None \<rparr>"
  using new_Package_cases [where s = "''core''" and ds = "[Str ''base'', Str ''jsdoc'']"
      and n = "Num 123" and d = "Arr []"]
    new_Package_cases [where s = "''core''" and d = "Str ''base''" and n = "Num 123"]
    new_Package_cases [where s = "''core''" and d = "Bool False" and n = "Num 123"]
  by simp

text \<open>
  C8 as stated fails: \<^verbatim>\<open>new Package('core', null)\<close> provides dependencies that are not
  an array, and the construction succeeds.
\<close>

theorem new_Package_null_dependencies:
  "new_Package (Str ''core'') Null =
     Inr \<lparr> name = ''core'', dependencies = Null, processors = [], configFns = [],
           handlers = Map.empty, module = Map.empty,
           handlers_builtin = {}, module_prototype = None \<rparr>"
  by (simp add: new_Package_def)

text \<open>
  C9, as amended. On \<^verbatim>\<open>undefined\<close> and \<^verbatim>\<open>null\<close> the check raises a TypeError (the read
  of \<^verbatim>\<open>pkg.name\<close>). On every other value it returns a boolean, which is true exactly
  when the \<^verbatim>\<open>name\<close> property is a string, the \<^verbatim>\<open>dependencies\<close> property is an array
  and the \<^verbatim>\<open>module\<close> property is an object (plain object or array) or a function.
\<close>

theorem isPackage_cases:
  "isPackage Undefined = Inl TypeError \<and> isPackage Null = Inl TypeError \<and>
   (v \<noteq> Undefined \<and> v \<noteq> Null \<longrightarrow>
      (\<exists>n d m. getprop v ''name'' = Inr n \<and> getprop v ''dependencies'' = Inr d \<and>
               getprop v ''module'' = Inr m \<and>
               isPackage v =
                 Inr ((\<exists>s. n = Str s) \<and> (\<exists>xs. d = Arr xs) \<and>
                      ((\<exists>ps. m = Obj ps) \<or> (\<exists>xs. m = Arr xs) \<or> (\<exists>f i. m = Fun f i)))))"
proof -
  have "\<exists>n d m. getprop v ''name'' = Inr n \<and> getprop v ''dependencies'' = Inr d \<and>
               getprop v ''module'' = Inr m \<and>
               isPackage v =
                 Inr ((\<exists>s. n = Str s) \<and> (\<exists>xs. d = Arr xs) \<and>
                      ((\<exists>ps. m = Obj ps) \<or> (\<exists>xs. m = Arr xs) \<or> (\<exists>f i. m = Fun f i)))"
    if nn: "v \<noteq> Undefined" "v \<noteq> Null"
  proof -
    obtain n d m where g: "getprop v ''name'' = Inr n" "getprop v ''dependencies'' = Inr d"
        "getprop v ''module'' = Inr m"
      using getprop_total [OF nn] by blast
    show ?thesis
      unfolding g isPackage_def
      by (simp add: isString_iff isArray_iff isObject_iff)
  qed
  then show ?thesis by (simp add: isPackage_def)
qed

theorem isPackage_cases_witness:
  "isPackage (Obj [(''name'', Str ''core''), (''dependencies'', Arr []), (''module'', Obj [])])
     = Inr True
   \<and> isPackage (Obj [(''name'', Num 1), (''dependencies'', Arr []), (''module'', Obj [])])
     = Inr False
   \<and> isPackage (Str ''core'') = Inr False"
  using
    isPackage_cases [where v = "Obj [(''name'', Str ''core''), (''dependencies'', Arr []), (''module'', Obj [])]"]
    isPackage_cases [where v = "Obj [(''name'', Num 1), (''dependencies'', Arr []), (''module'', Obj [])]"]
    isPackage_cases [where v = "Str ''core''"]
  by simp

text \<open>
  C9 as stated fails: on \<^verbatim>\<open>null\<close> the check raises instead of returning false.
\<close>

theorem isPackage_null_raises: "isPackage Null = Inl TypeError"
  by (simp add: isPackage_def)

section \<open>Validation in eventHandler\<close>

text \<open>
  C1, as amended. \<^verbatim>\<open>eventHandler(eventName, handlerFactory)\<close> fails with an
  \<open>Error\<close>, the descriptor unchanged, when \<open>eventName\<close> is not a string (the error
  about the event name) and when \<open>eventName\<close> is a string and \<open>handlerFactory\<close> is not a
  function (the error about the handler factory). The check on the event name is
  \<^verbatim>\<open>typeof eventName !== 'string'\<close>, which the empty string passes:
  \<^verbatim>\<open>eventHandler("", f)\<close> with a function \<open>f\<close> succeeds and appends the handler to the
  handlers of the event \<^verbatim>\<open>""\<close>.
\<close>

theorem eventHandler_validation:
  "(typeof e \<noteq> ''string'' \<longrightarrow>
      eventHandler K e f p =
        Inl (Error ''You must provide a string identifying the type of event to handle'', p))
   \<and> (typeof e = ''string'' \<and> typeof f \<noteq> ''function'' \<longrightarrow>
      eventHandler K e f p =
        Inl (Error (''handlerFactory must be a function.'' @ [CHR 0x0A] @ ''Got '' @
                    [CHR 0x22] @ typeof f @ [CHR 0x22]), p))
   \<and> (typeof f = ''function'' \<longrightarrow>
      (\<exists>p'. eventHandler K (Str []) f p = Inr p' \<and>
            handlers p' [] = Some (registered p [] @ [last (registered p' [])])))"
proof (intro conjI impI)
  assume "typeof e \<noteq> ''string''"
  then show "eventHandler K e f p =
        Inl (Error ''You must provide a string identifying the type of event to handle'', p)"
    by (simp add: eventHandler_def)
next
  assume "typeof e = ''string'' \<and> typeof f \<noteq> ''function''"
  then show "eventHandler K e f p =
        Inl (Error (''handlerFactory must be a function.'' @ [CHR 0x0A] @ ''Got '' @
                    [CHR 0x22] @ typeof f @ [CHR 0x22]), p)"
    by (simp add: eventHandler_def)
next
  assume "typeof f = ''function''"
  then obtain fn i where f: "f = Fun fn i"
    by (auto simp: typeof_function)
  have l: "handlers p [] = Some (registered p []) \<or>
      (handlers p [] = None \<and> inherited [] = None \<and> registered p [] = [])"
    by (cases "handlers p []") (simp_all add: registered_def inherited_empty)
  show "\<exists>p'. eventHandler K (Str []) f p = Inr p' \<and>
            handlers p' [] = Some (registered p [] @ [last (registered p' [])])"
    unfolding f eventHandler_array [OF l] by (simp add: registered_def)
qed

theorem eventHandler_validation_witness:
  "eventHandler objectKey (Num 7) (Fun ''f'' 0) core_package =
     Inl (Error ''You must provide a string identifying the type of event to handle'', core_package)
   \<and> eventHandler objectKey (Str ''docsProcessed'') (Num 7) core_package =
     Inl (Error (''handlerFactory must be a function.'' @ [CHR 0x0A] @ ''Got '' @
                 [CHR 0x22] @ ''number'' @ [CHR 0x22]), core_package)
   \<and> (\<exists>p'. eventHandler objectKey (Str []) (Fun ''f'' 0) core_package = Inr p')"
proof -
  have t1: "typeof (Num 7) \<noteq> ''string''" and t2: "typeof (Fun ''f'' 0) = ''function''"
    and t3: "typeof (Str ''docsProcessed'') = ''string'' \<and> typeof (Num 7) \<noteq> ''function''"
    and t4: "typeof (Num 7) = ''number''"
    by simp_all
  note a = eventHandler_validation [where K = objectKey and e = "Num 7" and f = "Fun ''f'' 0"
      and p = core_package]
  note b = eventHandler_validation [where K = objectKey and e = "Str ''docsProcessed''"
      and f = "Num 7" and p = core_package]
  from a t1 have 1: "eventHandler objectKey (Num 7) (Fun ''f'' 0) core_package =
     Inl (Error ''You must provide a string identifying the type of event to handle'', core_package)"
    by blast
  from b t3 have 2: "eventHandler objectKey (Str ''docsProcessed'') (Num 7) core_package =
     Inl (Error (''handlerFactory must be a function.'' @ [CHR 0x0A] @ ''Got '' @
                 [CHR 0x22] @ typeof (Num 7) @ [CHR 0x22]), core_package)"
    by blast
  from a t2 have 3: "\<exists>p'. eventHandler objectKey (Str []) (Fun ''f'' 0) core_package = Inr p'"
    by blast
  from 1 2 3 show ?thesis unfolding t4 by blast
qed

text \<open>
  C1 as stated fails: with the empty event name and a function the call succeeds, and
  lists the handler under the empty event name.
\<close>

theorem eventHandler_empty_event_name:
  "eventHandler objectKey (Str []) (Fun ''f'' 0) core_package =
     Inr (core_package\<lparr>module := [''f'' \<mapsto> (''factory'', Fun ''f'' 0)],
                        handlers := [[] \<mapsto> [''f'']]\<rparr>)"
proof -
  have l: "handlers core_package [] = Some [] \<or>
      (handlers core_package [] = None \<and> inherited [] = None \<and> [] = ([] :: string list))"
    by (simp add: core_package_def inherited_empty)
  show ?thesis
    unfolding eventHandler_array [OF l]
    by (simp add: module_set_plain) (simp add: core_package_def)
qed

section \<open>Names of module entries\<close>

lemma truthy_declared_name:
  assumes "string_or_absent_name a" and "getprop a ''name'' = Inr nm" and "truthy nm"
  shows "\<exists>s. nm = Str s \<and> s \<noteq> []"
proof -
  from assms(1,2) have "nm = Undefined \<or> isString nm"
    by (simp add: string_or_absent_name_def)
  with assms(3) show ?thesis
    by (cases nm) (simp_all add: isString_def)
qed

lemma module_set_keeps_nonempty:
  "k \<noteq> [] \<Longrightarrow> [] \<notin> dom (module p) \<Longrightarrow> [] \<notin> dom (module (module_set k e p))"
  using module_set_dom [of k e p] by auto

lemma run_keeps_keys_nonempty:
  assumes "declared_names c" and "run K c p = Inr p'" and "[] \<notin> dom (module p)"
  shows "[] \<notin> dom (module p')"
proof (cases c)
  case (Processor a b)
  with assms(2) obtain nm d where
    nm: "if isString a then nm = a \<and> d = b
         else getprop a ''name'' = Inr nm \<and> truthy nm \<and> d = a"
    and p': "p' = (module_set (property_key K nm)
                        (if typeof d = ''function'' then ''factory'' else ''value'', d) p)
                       \<lparr>processors := processors p @ [nm]\<rparr>"
    using processor_success [of K a b p p'] by auto
  have "\<exists>s. nm = Str s \<and> s \<noteq> []"
  proof (cases "isString a")
    case True
    with nm assms(1) Processor show ?thesis
      by (auto simp: isString_iff)
  next
    case False
    with nm assms(1) Processor show ?thesis
      using truthy_declared_name [of a nm] by simp
  qed
  then obtain s where "nm = Str s" "s \<noteq> []"
    by blast
  with p' assms(3) show ?thesis
    using module_set_keeps_nonempty [of s p] by simp
next
  case (Factory a b)
  show ?thesis
  proof (cases "typeof a = ''string''")
    case True
    then obtain s where s: "a = Str s"
      by (auto simp: typeof_string)
    with assms(1) Factory have "s \<noteq> []"
      by simp
    with assms(2,3) Factory s show ?thesis
      using module_set_keeps_nonempty [of s p]
      by (auto simp: factory_Str split: if_splits)
  next
    case False
    with assms(2) Factory obtain nm where nm: "getprop a ''name'' = Inr nm" "truthy nm"
      and fn: "typeof a = ''function''"
      and p': "p' = module_set (property_key K nm) (''factory'', a) p"
      by (auto simp: factory_def split: if_splits sum.splits)
    from fn nm obtain s where "nm = Str s" "s \<noteq> []"
      by (auto simp: typeof_function)
    with p' assms(3) show ?thesis
      using module_set_keeps_nonempty [of s p] by simp
  qed
next
  case (Type a b)
  show ?thesis
  proof (cases "typeof a = ''string''")
    case True
    then obtain s where s: "a = Str s"
      by (auto simp: typeof_string)
    with assms(1) Type have "s \<noteq> []"
      by simp
    with assms(2,3) Type s show ?thesis
      using module_set_keeps_nonempty [of s p]
      by (auto simp: type_service_Str split: if_splits)
  next
    case False
    with assms(2) Type obtain nm where nm: "getprop a ''name'' = Inr nm" "truthy nm"
      and fn: "typeof a = ''function''"
      and p': "p' = module_set (property_key K nm) (''type'', a) p"
      by (auto simp: type_service_def split: if_splits sum.splits)
    from fn nm obtain s where "nm = Str s" "s \<noteq> []"
      by (auto simp: typeof_function)
    with p' assms(3) show ?thesis
      using module_set_keeps_nonempty [of s p] by simp
  qed
next
  case (Config a)
  with assms show ?thesis
    by (auto simp: config_def split: if_splits)
next
  case (EventHandler a b)
  with assms(2) obtain ev fn i l where ab: "a = Str ev" "b = Fun fn i"
    and l: "handlers p ev = Some l \<or> (handlers p ev = None \<and> inherited ev = None \<and> l = [])"
    using eventHandler_success [of K a b p p'] by auto
  let ?h = "if fn \<noteq> [] then fn else name p @ ''_'' @ ev @ ''_'' @ decimal (length l)"
  have "?h \<noteq> []"
    by simp
  moreover from assms(2) EventHandler ab
  have "p' = (module_set ?h (''factory'', Fun fn i) p)
               \<lparr>handlers := (handlers p)(ev \<mapsto> l @ [?h])\<rparr>"
    by (simp add: eventHandler_array [OF l])
  then have "module p' = module (module_set ?h (''factory'', Fun fn i) p)"
    by simp
  ultimately show ?thesis
    using assms(3) module_set_keeps_nonempty [of ?h p] by simp
qed

lemma run_all_keeps_keys_nonempty:
  "\<forall>c \<in> set cs. declared_names c \<Longrightarrow> run_all K cs p = Inr p' \<Longrightarrow>
     [] \<notin> dom (module p) \<Longrightarrow> [] \<notin> dom (module p')"
proof (induction cs arbitrary: p)
  case Nil
  then show ?case by simp
next
  case (Cons c cs)
  from Cons.prems(2) obtain p1 where 1: "run K c p = Inr p1" and 2: "run_all K cs p1 = Inr p'"
    by (auto split: sum.splits)
  from Cons.prems(1) 1 Cons.prems(3) have "[] \<notin> dom (module p1)"
    using run_keeps_keys_nonempty [of c K p p1] by simp
  with Cons.IH [of p1] Cons.prems(1) 2 show ?case by simp
qed

lemma new_Package_module: "new_Package n d = Inr p \<Longrightarrow> module p = Map.empty"
  by (auto simp: new_Package_def Let_def split: if_splits)

text \<open>
  C2, as amended. In every descriptor reached from a newly constructed package by
  successful registration calls that pass no empty string as explicit name (and, for
  a processor given by its definition alone, a definition whose \<^verbatim>\<open>name\<close> is a string
  or absent, as declared), every key of the module map is a non-empty string. An
  explicit name is used as it is: \<^verbatim>\<open>factory\<close> and \<^verbatim>\<open>type\<close> with the explicit name
  \<^verbatim>\<open>""\<close> and a function, and \<^verbatim>\<open>processor\<close> with the explicit name \<^verbatim>\<open>""\<close>, succeed
  and write the entry under the empty key.
\<close>

theorem module_keys_nonempty:
  "(new_Package n d = Inr p \<and> (\<forall>c \<in> set cs. declared_names c) \<and> run_all K cs p = Inr p'
      \<longrightarrow> [] \<notin> dom (module p'))
   \<and> (typeof v = ''function'' \<longrightarrow>
        factory K (Str []) v q = Inr (q\<lparr>module := (module q)([] \<mapsto> (''factory'', v))\<rparr>) \<and>
        type_service K (Str []) v q = Inr (q\<lparr>module := (module q)([] \<mapsto> (''type'', v))\<rparr>))
   \<and> processor K (Str []) v q =
        Inr (q\<lparr>module := (module q)([] \<mapsto>
                    (if typeof v = ''function'' then ''factory'' else ''value'', v)),
               processors := processors q @ [Str []]\<rparr>)"
proof (intro conjI impI)
  assume a: "new_Package n d = Inr p \<and> (\<forall>c \<in> set cs. declared_names c) \<and>
    run_all K cs p = Inr p'"
  then have "[] \<notin> dom (module p)"
    using new_Package_module [of n d p] by simp
  with a show "[] \<notin> dom (module p')"
    using run_all_keeps_keys_nonempty [of cs K p p'] by blast
qed (simp_all add: factory_Str type_service_Str processor_Str module_set_plain)

theorem module_keys_nonempty_witness:
  "new_Package (Str ''core'') Undefined = Inr core_package
   \<and> declared_names (Factory (Fun ''svc'' 0) Undefined)
   \<and> declared_names (Processor (Obj [(''name'', Str ''tidy'')]) Undefined)
   \<and> run_all objectKey
       [Factory (Fun ''svc'' 0) Undefined, Processor (Obj [(''name'', Str ''tidy'')]) Undefined]
       core_package =
     Inr (core_package\<lparr>module := [''svc'' \<mapsto> (''factory'', Fun ''svc'' 0),
                                   ''tidy'' \<mapsto> (''value'', Obj [(''name'', Str ''tidy'')])],
                        processors := [Str ''tidy'']\<rparr>)
   \<and> [] \<notin> dom [''svc'' \<mapsto> (''factory'', Fun ''svc'' 0),
                 ''tidy'' \<mapsto> (''value'', Obj [(''name'', Str ''tidy'')])]"
proof -
  let ?cs = "[Factory (Fun ''svc'' 0) Undefined, Processor (Obj [(''name'', Str ''tidy'')]) Undefined]"
  let ?p' = "core_package\<lparr>module := [''svc'' \<mapsto> (''factory'', Fun ''svc'' 0),
                                   ''tidy'' \<mapsto> (''value'', Obj [(''name'', Str ''tidy'')])],
                        processors := [Str ''tidy'']\<rparr>"
  have new: "new_Package (Str ''core'') Undefined = Inr core_package"
    by (simp add: new_Package_def core_package_def)
  have d1: "declared_names (Factory (Fun ''svc'' 0) Undefined)"
    by simp
  have d2: "declared_names (Processor (Obj [(''name'', Str ''tidy'')]) Undefined)"
    by (simp add: string_or_absent_name_def isString_def)
  have run: "run_all objectKey ?cs core_package = Inr ?p'"
    by (simp add: factory_def processor_def isString_def module_set_plain core_package_def)
  have "[] \<notin> dom (module ?p')"
    using module_keys_nonempty [where n = "Str ''core''" and d = Undefined and p = core_package
        and cs = ?cs and K = objectKey and p' = ?p'] new d1 d2 run
    by simp
  then have "[] \<notin> dom [''svc'' \<mapsto> (''factory'', Fun ''svc'' 0),
                 ''tidy'' \<mapsto> (''value'', Obj [(''name'', Str ''tidy'')])]"
    by simp
  with new d1 d2 run show ?thesis by blast
qed

text \<open>
  C2 as stated fails: \<^verbatim>\<open>factory("", f)\<close> succeeds on the new package \<open>core\<close> and
  leaves the empty string among the keys of the module map.
\<close>

theorem factory_empty_name:
  "factory objectKey (Str []) (Fun ''f'' 0) core_package =
     Inr (core_package\<lparr>module := [[] \<mapsto> (''factory'', Fun ''f'' 0)]\<rparr>)
   \<and> [] \<in> dom (module (core_package\<lparr>module := [[] \<mapsto> (''factory'', Fun ''f'' 0)]\<rparr>))"
  by (simp add: factory_Str module_set_plain core_package_def)


section \<open>Processor registration\<close>








section \<open>Overwriting a module entry\<close>










section \<open>Event handlers\<close>





section \<open>Synthesized handler names\<close>














section \<open>Failed validation\<close>

















end
